theory Spec2Isabelle
  imports Complex_Main "HOL-Library.AList"
begin

unbundle bit_operations_syntax

section \<open>JSON values as the JavaScript code sees them\<close>

text \<open>
  The structured query is the parsed reply of the language model, so its parts are JSON
  values. An object is an association list in property order; reading a property takes
  the first entry of that name (\<open>map_of\<close>), writing one replaces it in place or appends it
  (\<open>AList.update\<close>), as JavaScript does. A number is kept as the rational it denotes.
  A property that is not there reads as \<open>undefined\<close>: \<open>None\<close> of \<open>json option\<close>.
\<close>

datatype json =
    JNull
  | JBool bool
  | JNum rat
  | JStr string
  | JArr "json list"
  | JObj "(string \<times> json) list"

text \<open>JavaScript's truthiness of a JSON value, and \<open>!v\<close> for a value that may be undefined.\<close>

fun truthy :: "json \<Rightarrow> bool" where
  "truthy JNull = False"
| "truthy (JBool b) = b"
| "truthy (JNum n) = (n \<noteq> 0)"
| "truthy (JStr s) = (s \<noteq> [])"
| "truthy (JArr xs) = True"
| "truthy (JObj kvs) = True"

definition falsy :: "json option \<Rightarrow> bool" where
  "falsy v = (case v of None \<Rightarrow> True | Some x \<Rightarrow> \<not> truthy x)"

text \<open>
  What the code can throw. \<open>InvalidCollection\<close> and \<open>UnsupportedOperation\<close> are the two
  \<open>Error\<close>s of \<open>executeQuery\<close>, told apart by their messages and carrying the offending
  value; \<open>TypeError\<close> is a property read on \<open>null\<close> or \<open>undefined\<close>; \<open>StoreError\<close> is
  a rejection by the document store; \<open>CollaboratorError\<close> one by the language model
  (or the failure to parse its reply).
\<close>

datatype error =
    InvalidCollection "json option"
  | UnsupportedOperation "json option"
  | TypeError
  | StoreError string
  | CollaboratorError string

text \<open>
  \<open>v.k\<close> for the two keys the guard reads, \<open>$match\<close> and \<open>user_id\<close>: \<open>null\<close> throws,
  an object gives its property, every other JSON value (number, string, boolean, array) has
  no property of either name.
\<close>

fun getProp :: "json \<Rightarrow> string \<Rightarrow> error + json option" where
  "getProp JNull k = Inl TypeError"
| "getProp (JObj kvs) k = Inr (map_of kvs k)"
| "getProp (JBool b) k = Inr None"
| "getProp (JNum n) k = Inr None"
| "getProp (JStr s) k = Inr None"
| "getProp (JArr xs) k = Inr None"

section \<open>The structured query\<close>

text \<open>
  \<open>const { collection, operation, query, projection, pipeline } = queryDef\<close>.
  \<open>collection\<close>, \<open>operation\<close> and \<open>projection\<close> are any JSON value or absent. As in the
  data model, \<open>query\<close> is a filter document and \<open>pipeline\<close> a sequence of stages, each
  of them absent (\<open>None\<close>, which also stands for JSON \<open>null\<close>) or present; the stages
  and the filter's values are arbitrary JSON.
\<close>

record queryDef =
  collection :: "json option"
  operation :: "json option"
  query :: "(string \<times> json) list option"
  projection :: "json option"
  pipeline :: "json list option"

subsection \<open>injectUserId (the isolation guard)\<close>

text \<open>
  The specification's \<open>enforce\<close>, \<open>execute\<close>, \<open>tenantId\<close> and \<open>find_one\<close> are the code's
  \<open>injectUserId\<close>, \<open>executeQuery\<close>, \<open>user_id\<close> and \<open>findOne\<close>.
\<close>

text \<open>
  \<open>pipeline.length > 0 && pipeline[0].$match && pipeline[0].$match.user_id\<close>, read for
  its truthiness. A first stage that is \<open>null\<close> makes the property read throw.
\<close>

definition hasUserMatch :: "json list \<Rightarrow> error + bool" where
  "hasUserMatch pl =
     (case pl of
        [] \<Rightarrow> Inr False
      | s # rest \<Rightarrow>
          (case getProp s ''$match'' of
             Inl e \<Rightarrow> Inl e
           | Inr m \<Rightarrow>
               (case m of
                  None \<Rightarrow> Inr False
                | Some mv \<Rightarrow>
                    if \<not> truthy mv then Inr False
                    else (case getProp mv ''user_id'' of
                            Inl e \<Rightarrow> Inl e
                          | Inr u \<Rightarrow> Inr (\<not> falsy u)))))"

definition userMatch :: "json \<Rightarrow> json" where
  "userMatch userId = JObj [(''$match'', JObj [(''user_id'', userId)])]"

definition injectUserId :: "queryDef \<Rightarrow> json \<Rightarrow> error + queryDef" where
  "injectUserId queryDef userId =
     (if collection queryDef = Some (JStr ''users'') then Inr queryDef
      else if operation queryDef = Some (JStr ''aggregate'') \<and> pipeline queryDef \<noteq> None then
        (case pipeline queryDef of
           None \<Rightarrow> Inr queryDef
         | Some pl \<Rightarrow>
             (case hasUserMatch pl of
                Inl e \<Rightarrow> Inl e
              | Inr has \<Rightarrow>
                  if \<not> has then Inr (queryDef\<lparr>pipeline := Some (userMatch userId # pl)\<rparr>)
                  else Inr queryDef))
      else if operation queryDef = Some (JStr ''find'')
              \<or> operation queryDef = Some (JStr ''findOne'') then
        (case query queryDef of
           None \<Rightarrow> Inr (queryDef\<lparr>query := Some [(''user_id'', userId)]\<rparr>)
         | Some q \<Rightarrow>
             if falsy (map_of q ''user_id'')
             then Inr (queryDef\<lparr>query := Some (AList.update ''user_id'' userId q)\<rparr>)
             else Inr queryDef)
      else Inr queryDef)"

subsection \<open>The document store\<close>

text \<open>
  The store is MongoDB, reached through its driver; neither is part of the repository.
  The model gives the part of their documented behaviour that the guard relies on and
  leaves the rest as parameters of the store:
  \<^item> \<open>docs\<close>: the documents of each collection, in natural order;
  \<^item> a filter document is the conjunction of its fields; a field that names a plain
    path (no \<open>$\<close> operator, no dot) with a string, number or boolean is an equality test,
    which a document passes when its field has that value or is an array holding it;
    every other condition (operators, \<open>null\<close>, nested documents) is decided by \<open>cond\<close>;
  \<open>proj\<close> applies a projection, \<open>stage\<close> runs an aggregation stage other than a
  \<open>$match\<close> with a filter document (it may fail with a message), and \<open>outage\<close> is the
  message with which every call is rejected while the store cannot be reached.
\<close>

record mongo =
  docs :: "string \<Rightarrow> json list"
  cond :: "string \<Rightarrow> json \<Rightarrow> json \<Rightarrow> bool"
  proj :: "json \<Rightarrow> json \<Rightarrow> json"
  stage :: "json \<Rightarrow> json list \<Rightarrow> string + json list"
  outage :: "string option"

fun scalar :: "json \<Rightarrow> bool" where
  "scalar (JStr s) = True"
| "scalar (JNum n) = True"
| "scalar (JBool b) = True"
| "scalar JNull = False"
| "scalar (JArr xs) = False"
| "scalar (JObj kvs) = False"

definition plainField :: "string \<Rightarrow> bool" where
  "plainField k = (case k of [] \<Rightarrow> False | c # cs \<Rightarrow> c \<noteq> CHR ''$'' \<and> CHR ''.'' \<notin> set k)"

definition fieldOf :: "json \<Rightarrow> string \<Rightarrow> json option" where
  "fieldOf d k = (case d of JObj kvs \<Rightarrow> map_of kvs k | _ \<Rightarrow> None)"

definition holds :: "mongo \<Rightarrow> json \<Rightarrow> string \<Rightarrow> json \<Rightarrow> bool" where
  "holds m d k v =
     (if plainField k \<and> scalar v then
        (case fieldOf d k of
           Some (JArr xs) \<Rightarrow> v \<in> set xs
         | x \<Rightarrow> x = Some v)
      else cond m k v d)"

definition sat :: "mongo \<Rightarrow> (string \<times> json) list \<Rightarrow> json \<Rightarrow> bool" where
  "sat m f d =
     list_all (\<lambda>k. case map_of f k of None \<Rightarrow> True | Some v \<Rightarrow> holds m d k v) (map fst f)"

definition project :: "mongo \<Rightarrow> json option \<Rightarrow> json \<Rightarrow> json" where
  "project m p d = (case p of None \<Rightarrow> d | Some spec \<Rightarrow> proj m spec d)"

text \<open>\<open>col.find(filter, { projection }).toArray()\<close> and \<open>col.findOne(filter, { projection })\<close>.\<close>

definition col_find ::
  "mongo \<Rightarrow> string \<Rightarrow> (string \<times> json) list \<Rightarrow> json option \<Rightarrow> string + json list" where
  "col_find m c f p =
     (case outage m of
        Some msg \<Rightarrow> Inl msg
      | None \<Rightarrow> Inr (map (project m p) (filter (sat m f) (docs m c))))"

definition col_findOne ::
  "mongo \<Rightarrow> string \<Rightarrow> (string \<times> json) list \<Rightarrow> json option \<Rightarrow> string + json" where
  "col_findOne m c f p =
     (case outage m of
        Some msg \<Rightarrow> Inl msg
      | None \<Rightarrow>
          (case filter (sat m f) (docs m c) of
             [] \<Rightarrow> Inr JNull
           | d # ds \<Rightarrow> Inr (project m p d)))"

text \<open>\<open>col.aggregate(pipeline).toArray()\<close>: the stages run in order on the collection.\<close>

fun stageFilter :: "json \<Rightarrow> (string \<times> json) list option" where
  "stageFilter (JObj [(k, JObj f)]) = (if k = ''$match'' then Some f else None)"
| "stageFilter s = None"

definition run_stage :: "mongo \<Rightarrow> json \<Rightarrow> json list \<Rightarrow> string + json list" where
  "run_stage m s ds =
     (case stageFilter s of
        Some f \<Rightarrow> Inr (filter (sat m f) ds)
      | None \<Rightarrow> stage m s ds)"

fun run_pipeline :: "mongo \<Rightarrow> json list \<Rightarrow> json list \<Rightarrow> string + json list" where
  "run_pipeline m [] ds = Inr ds"
| "run_pipeline m (s # ss) ds =
     (case run_stage m s ds of
        Inl msg \<Rightarrow> Inl msg
      | Inr ds' \<Rightarrow> run_pipeline m ss ds')"

definition col_aggregate :: "mongo \<Rightarrow> string \<Rightarrow> json list \<Rightarrow> string + json list" where
  "col_aggregate m c pl =
     (case outage m of
        Some msg \<Rightarrow> Inl msg
      | None \<Rightarrow> run_pipeline m pl (docs m c))"

subsection \<open>executeQuery\<close>

definition allowedCollections :: "string list" where
  "allowedCollections =
     [''users'', ''bank_transactions'', ''mutual_fund_holdings'', ''equity_holdings'']"

text \<open>\<open>allowedCollections.includes(collection)\<close>: only a string equal to an entry is included.\<close>

definition arrayIncludes :: "string list \<Rightarrow> json option \<Rightarrow> bool" where
  "arrayIncludes xs v = (case v of Some (JStr s) \<Rightarrow> s \<in> set xs | _ \<Rightarrow> False)"

definition collectionName :: "json option \<Rightarrow> string" where
  "collectionName v = (case v of Some (JStr s) \<Rightarrow> s | _ \<Rightarrow> [])"

definition raised :: "string + 'a \<Rightarrow> error + 'a" where
  "raised r = (case r of Inl msg \<Rightarrow> Inl (StoreError msg) | Inr x \<Rightarrow> Inr x)"

text \<open>
  \<open>getDB()\<close> is \<open>mongoose.connection.db\<close>: \<open>undefined\<close> (here \<open>None\<close>) while no connection
  is open, and then \<open>db.collection(...)\<close> throws a TypeError. \<open>query || {}\<close> and
  \<open>pipeline || []\<close> stand in for an absent filter and pipeline.
\<close>

definition executeQuery :: "mongo option \<Rightarrow> queryDef \<Rightarrow> error + json" where
  "executeQuery db queryDef =
     (if \<not> arrayIncludes allowedCollections (collection queryDef)
      then Inl (InvalidCollection (collection queryDef))
      else
        (case db of
           None \<Rightarrow> Inl TypeError
         | Some m \<Rightarrow>
             (let c = collectionName (collection queryDef) in
              if operation queryDef = Some (JStr ''find'') then
                raised (map_sum id JArr
                  (col_find m c (case query queryDef of None \<Rightarrow> [] | Some q \<Rightarrow> q)
                     (projection queryDef)))
              else if operation queryDef = Some (JStr ''findOne'') then
                raised (col_findOne m c (case query queryDef of None \<Rightarrow> [] | Some q \<Rightarrow> q)
                     (projection queryDef))
              else if operation queryDef = Some (JStr ''aggregate'') then
                raised (map_sum id JArr
                  (col_aggregate m c (case pipeline queryDef of None \<Rightarrow> [] | Some pl \<Rightarrow> pl)))
              else Inl (UnsupportedOperation (operation queryDef)))))"

text \<open>
  Lines 179 and 185 of the chain: \<open>mongoQuery = injectUserId(mongoQuery, userId)\<close>, then
  \<open>executeQuery(mongoQuery)\<close>.
\<close>

definition enforceThenExecute :: "mongo option \<Rightarrow> queryDef \<Rightarrow> json \<Rightarrow> error + json" where
  "enforceThenExecute db queryDef userId =
     (case injectUserId queryDef userId of
        Inl e \<Rightarrow> Inl e
      | Inr mongoQuery \<Rightarrow> executeQuery db mongoQuery)"

section \<open>The response cache\<close>

subsection \<open>Strings\<close>

text \<open>
  A string is a sequence of UTF-16 code units, as in JavaScript; a \<open>char\<close> is a code unit
  below 256, so the strings of the model are the texts of characters U+0000 to U+00FF, and
  \<open>length\<close> is the code's \<open>.length\<close>. On these characters \<open>toLowerCase\<close> works
  character by character: it adds 32 to \<open>A\<close> to \<open>Z\<close> (65 to 90) and to the upper-case
  letters U+00C0 to U+00DE other than the multiplication sign U+00D7, and leaves every
  other character. The white space of \<open>trim\<close> and of the pattern \<open>\s\<close> is, in this range,
  tab, line feed, vertical tab, form feed, carriage return, space and the no-break
  space U+00A0.
\<close>

definition toLowerChar :: "char \<Rightarrow> char" where
  "toLowerChar c =
     (let n = of_char c :: nat in
      if (65 \<le> n \<and> n \<le> 90) \<or> (192 \<le> n \<and> n \<le> 222 \<and> n \<noteq> 215)
      then char_of (n + 32)
      else c)"

definition toLowerCase :: "string \<Rightarrow> string" where
  "toLowerCase s = map toLowerChar s"

definition isSpace :: "char \<Rightarrow> bool" where
  "isSpace c = (of_char c \<in> set [9, 10, 11, 12, 13, 32, 160 :: nat])"

definition trimStart :: "string \<Rightarrow> string" where
  "trimStart s = dropWhile isSpace s"

definition trimEnd :: "string \<Rightarrow> string" where
  "trimEnd s = rev (dropWhile isSpace (rev s))"

definition trim :: "string \<Rightarrow> string" where
  "trim s = trimEnd (trimStart s)"

text \<open>\<open>s.replace(/\s+/g, ' ')\<close>: every maximal run of white space becomes one space.\<close>

function collapseSpaces :: "string \<Rightarrow> string" where
  "collapseSpaces [] = []"
| "collapseSpaces (c # cs) =
     (if isSpace c then CHR '' '' # collapseSpaces (dropWhile isSpace cs)
      else c # collapseSpaces cs)"
  by pat_completeness auto
termination
  by (relation "measure length") (auto simp: length_dropWhile_le less_Suc_eq_le)

subsection \<open>MD5\<close>

text \<open>
  \<open>crypto.createHash('md5').update(s).digest('hex')\<close>, after RFC 1321, on 32-bit values
  kept as natural numbers with the wrap-around written out. The digest of a text is taken
  over its UTF-8 bytes: one byte for a character below 128, two for the others.
\<close>

definition utf8 :: "string \<Rightarrow> nat list" where
  "utf8 s =
     concat (map (\<lambda>c. let n = of_char c :: nat in
                        if n < 128 then [n] else [192 + n div 64, 128 + n mod 64]) s)"

definition md5_s :: "nat list" where
  "md5_s = [7, 12, 17, 22, 7, 12, 17, 22, 7, 12, 17, 22, 7, 12, 17, 22,
            5, 9, 14, 20, 5, 9, 14, 20, 5, 9, 14, 20, 5, 9, 14, 20,
            4, 11, 16, 23, 4, 11, 16, 23, 4, 11, 16, 23, 4, 11, 16, 23,
            6, 10, 15, 21, 6, 10, 15, 21, 6, 10, 15, 21, 6, 10, 15, 21]"

definition md5_K :: "nat list" where
  "md5_K = [0xd76aa478, 0xe8c7b756, 0x242070db, 0xc1bdceee,
            0xf57c0faf, 0x4787c62a, 0xa8304613, 0xfd469501,
            0x698098d8, 0x8b44f7af, 0xffff5bb1, 0x895cd7be,
            0x6b901122, 0xfd987193, 0xa679438e, 0x49b40821,
            0xf61e2562, 0xc040b340, 0x265e5a51, 0xe9b6c7aa,
            0xd62f105d, 0x02441453, 0xd8a1e681, 0xe7d3fbc8,
            0x21e1cde6, 0xc33707d6, 0xf4d50d87, 0x455a14ed,
            0xa9e3e905, 0xfcefa3f8, 0x676f02d9, 0x8d2a4c8a,
            0xfffa3942, 0x8771f681, 0x6d9d6122, 0xfde5380c,
            0xa4beea44, 0x4bdecfa9, 0xf6bb4b60, 0xbebfbc70,
            0x289b7ec6, 0xeaa127fa, 0xd4ef3085, 0x04881d05,
            0xd9d4d039, 0xe6db99e5, 0x1fa27cf8, 0xc4ac5665,
            0xf4292244, 0x432aff97, 0xab9423a7, 0xfc93a039,
            0x655b59c3, 0x8f0ccc92, 0xffeff47d, 0x85845dd1,
            0x6fa87e4f, 0xfe2ce6e0, 0xa3014314, 0x4e0811a1,
            0xf7537e82, 0xbd3af235, 0x2ad7d2bb, 0xeb86d391]"

definition add32 :: "nat \<Rightarrow> nat \<Rightarrow> nat" where
  "add32 a b = (a + b) mod 4294967296"

definition not32 :: "nat \<Rightarrow> nat" where
  "not32 x = 4294967295 - x"

definition rotl32 :: "nat \<Rightarrow> nat \<Rightarrow> nat" where
  "rotl32 s x = (x * 2 ^ s) mod 4294967296 + x div 2 ^ (32 - s)"

text \<open>Padding to whole 64-byte blocks: the byte 128, zeros, the length in bits on 8 bytes.\<close>

definition md5_pad :: "nat list \<Rightarrow> nat list" where
  "md5_pad bs =
     bs @ [128] @ replicate ((119 - length bs mod 64) mod 64) 0
        @ map (\<lambda>i. (8 * length bs) div 256 ^ i mod 256) [0..<8]"

definition md5_blocks :: "nat list \<Rightarrow> nat list list" where
  "md5_blocks bs = map (\<lambda>i. take 64 (drop (64 * i) bs)) [0..<length bs div 64]"

definition le32 :: "nat list \<Rightarrow> nat" where
  "le32 bs = foldr (\<lambda>b acc. b + 256 * acc) bs 0"

definition md5_words :: "nat list \<Rightarrow> nat list" where
  "md5_words block = map (\<lambda>i. le32 (take 4 (drop (4 * i) block))) [0..<16]"

definition md5_F :: "nat \<Rightarrow> nat \<Rightarrow> nat \<Rightarrow> nat \<Rightarrow> nat" where
  "md5_F i B C D =
     (if i < 16 then (B AND C) OR (not32 B AND D)
      else if i < 32 then (D AND B) OR (not32 D AND C)
      else if i < 48 then B XOR C XOR D
      else C XOR (B OR not32 D))"

definition md5_g :: "nat \<Rightarrow> nat" where
  "md5_g i =
     (if i < 16 then i
      else if i < 32 then (5 * i + 1) mod 16
      else if i < 48 then (3 * i + 5) mod 16
      else (7 * i) mod 16)"

fun md5_step ::
  "nat list \<Rightarrow> nat \<times> nat \<times> nat \<times> nat \<Rightarrow> nat \<Rightarrow> nat \<times> nat \<times> nat \<times> nat" where
  "md5_step M (A, B, C, D) i =
     (D,
      add32 B (rotl32 (md5_s ! i)
                 (add32 (add32 (add32 (md5_F i B C D) A) (md5_K ! i)) (M ! md5_g i))),
      B, C)"

fun md5_block :: "nat \<times> nat \<times> nat \<times> nat \<Rightarrow> nat list \<Rightarrow> nat \<times> nat \<times> nat \<times> nat" where
  "md5_block (a0, b0, c0, d0) block =
     (case foldl (md5_step (md5_words block)) (a0, b0, c0, d0) [0..<64] of
        (A, B, C, D) \<Rightarrow> (add32 a0 A, add32 b0 B, add32 c0 C, add32 d0 D))"

definition hexByte :: "nat \<Rightarrow> string" where
  "hexByte b = [''0123456789abcdef'' ! (b div 16), ''0123456789abcdef'' ! (b mod 16)]"

definition hexLE :: "nat \<Rightarrow> string" where
  "hexLE w = concat (map (\<lambda>i. hexByte (w div 256 ^ i mod 256)) [0..<4])"

definition md5 :: "string \<Rightarrow> string" where
  "md5 s =
     (case foldl md5_block (0x67452301, 0xefcdab89, 0x98badcfe, 0x10325476)
             (md5_blocks (md5_pad (utf8 s))) of
        (a, b, c, d) \<Rightarrow> hexLE a @ hexLE b @ hexLE c @ hexLE d)"

subsection \<open>generateCacheKey\<close>

definition normalized :: "string \<Rightarrow> string" where
  "normalized question = collapseSpaces (trim (toLowerCase question))"

definition generateCacheKey :: "string \<Rightarrow> string" where
  "generateCacheKey question = ''query:'' @ md5 (normalized question)"

text \<open>The template \<open>`${userId}:${question}`\<close> of \<open>processQuery\<close>, for a tenant id that is a string.\<close>

definition cacheKey :: "string \<Rightarrow> string \<Rightarrow> string" where
  "cacheKey userId question = userId @ '':'' @ question"

text \<open>The cache key of a tenant and a question: what \<open>processQuery\<close> looks up and stores under.\<close>

definition keyOf :: "string \<Rightarrow> string \<Rightarrow> string" where
  "keyOf userId question = generateCacheKey (cacheKey userId question)"

subsection \<open>The cache store and the collaborators\<close>

text \<open>
  The Redis client is \<open>Closed\<close> (\<open>isOpen && isReady\<close> is false), \<open>Stalled\<close> (it reports
  itself connected but rejects every command) or \<open>Ready\<close> with its keys and values; expiry
  by TTL is the server's and is not modelled. \<open>calls\<close> records, oldest first, every
  point where the code reaches outside the process: the cache store, the language model
  (translation and synthesis) and the document store (on entry to \<open>executeQuery\<close>).
\<close>

datatype redis = Closed | Stalled | Ready "(string \<times> string) list"

datatype call =
    CacheGet string
  | CacheSet string nat string
  | Translate string json
  | Execute queryDef
  | Synthesize json string json

record world =
  redisClient :: redis
  calls :: "call list"

text \<open>
  What the process is configured with or consumes and the repository does not define:
  the cache settings of \<open>config\<close>; \<open>JSON.parse\<close> (\<open>None\<close> when it throws) and
  \<open>JSON.stringify\<close>; \<open>String(v)\<close> for a JSON value that is not a string; the database
  handle; and the two uses of the language model. \<open>translate question userId\<close> stands for
  lines 171 to 176 of the chain (the prompt, \<open>llm.invoke\<close>, \<open>parseQueryResponse\<close>): the
  reply read as a structured query, or the error thrown. \<open>synthesize userName question
  data\<close> stands for lines 191 to 197: the answer text, or the error thrown.
\<close>

record env =
  cacheEnabled :: bool
  cacheTtl :: nat
  parseJSON :: "string \<Rightarrow> json option"
  stringify :: "json \<Rightarrow> string"
  stringOf :: "json \<Rightarrow> string"
  mongoDb :: "mongo option"
  translate :: "string \<Rightarrow> json \<Rightarrow> error + queryDef"
  synthesize :: "json \<Rightarrow> string \<Rightarrow> json \<Rightarrow> error + string"

definition isRedisConnected :: "world \<Rightarrow> bool" where
  "isRedisConnected w = (case redisClient w of Closed \<Rightarrow> False | _ \<Rightarrow> True)"

definition logCall :: "call \<Rightarrow> world \<Rightarrow> world" where
  "logCall c w = w\<lparr>calls := calls w @ [c]\<rparr>"

text \<open>
  \<open>getCachedResponse\<close>: the parsed entry, or \<open>null\<close>. Inside the \<open>try\<close>, a rejected
  command and a value that does not parse end in the \<open>catch\<close>, which returns \<open>null\<close>.
\<close>

definition getCachedResponse :: "env \<Rightarrow> world \<Rightarrow> string \<Rightarrow> json \<times> world" where
  "getCachedResponse e w question =
     (if \<not> cacheEnabled e \<or> \<not> isRedisConnected w then (JNull, w)
      else
        (let key = generateCacheKey question;
             w' = logCall (CacheGet key) w
         in case redisClient w of
              Ready kvs \<Rightarrow>
                (case map_of kvs key of
                   None \<Rightarrow> (JNull, w')
                 | Some cached \<Rightarrow>
                     if cached = [] then (JNull, w')
                     else (case parseJSON e cached of
                             None \<Rightarrow> (JNull, w')
                           | Some v \<Rightarrow> (v, w')))
            | _ \<Rightarrow> (JNull, w')))"

text \<open>\<open>cacheResponse\<close>: \<open>setEx\<close> inside a \<open>try\<close> whose \<open>catch\<close> only logs.\<close>

definition cacheResponse :: "env \<Rightarrow> world \<Rightarrow> string \<Rightarrow> json \<Rightarrow> world" where
  "cacheResponse e w question response =
     (if \<not> cacheEnabled e \<or> \<not> isRedisConnected w then w
      else
        (let key = generateCacheKey question;
             w' = logCall (CacheSet key (cacheTtl e) (stringify e response)) w
         in case redisClient w of
              Ready kvs \<Rightarrow> w'\<lparr>redisClient := Ready (AList.update key (stringify e response) kvs)\<rparr>
            | _ \<Rightarrow> w'))"

subsection \<open>Object spread\<close>

function showNat :: "nat \<Rightarrow> string" where
  "showNat n =
     (if n < 10 then [''0123456789'' ! n]
      else showNat (n div 10) @ [''0123456789'' ! (n mod 10)])"
  by pat_completeness auto
termination
  by (relation "measure id") auto

text \<open>
  \<open>{ ...v }\<close> for a JSON value: the properties of an object, the indexed elements of an
  array, the indexed characters of a string, nothing for the rest.
\<close>

definition spread :: "json \<Rightarrow> (string \<times> json) list" where
  "spread v =
     (case v of
        JObj kvs \<Rightarrow> kvs
      | JArr xs \<Rightarrow> zip (map showNat [0..<length xs]) xs
      | JStr s \<Rightarrow> zip (map showNat [0..<length s]) (map (\<lambda>c. JStr [c]) s)
      | _ \<Rightarrow> [])"

definition withFromCache :: "bool \<Rightarrow> json \<Rightarrow> json" where
  "withFromCache b v = JObj (AList.update ''fromCache'' (JBool b) (spread v))"

subsection \<open>The chain and the orchestrator\<close>

text \<open>The structured query as the object that is logged and returned as \<open>queryExecuted\<close>.\<close>

definition queryDefJson :: "queryDef \<Rightarrow> json" where
  "queryDefJson q =
     JObj ((case collection q of None \<Rightarrow> [] | Some v \<Rightarrow> [(''collection'', v)])
         @ (case operation q of None \<Rightarrow> [] | Some v \<Rightarrow> [(''operation'', v)])
         @ (case query q of None \<Rightarrow> [] | Some f \<Rightarrow> [(''query'', JObj f)])
         @ (case projection q of None \<Rightarrow> [] | Some v \<Rightarrow> [(''projection'', v)])
         @ (case pipeline q of None \<Rightarrow> [] | Some pl \<Rightarrow> [(''pipeline'', JArr pl)]))"

definition processNaturalLanguageQuery ::
  "env \<Rightarrow> world \<Rightarrow> string \<Rightarrow> json \<Rightarrow> json \<Rightarrow> (error + json) \<times> world" where
  "processNaturalLanguageQuery e w question userId userName =
     (let w1 = logCall (Translate question userId) w in
      case translate e question userId of
        Inl err \<Rightarrow> (Inl err, w1)
      | Inr parsed \<Rightarrow>
          (case injectUserId parsed userId of
             Inl err \<Rightarrow> (Inl err, w1)
           | Inr mongoQuery \<Rightarrow>
               (let w2 = logCall (Execute mongoQuery) w1 in
                case executeQuery (mongoDb e) mongoQuery of
                  Inl err \<Rightarrow> (Inl err, w2)
                | Inr queryResult \<Rightarrow>
                    (let w3 = logCall (Synthesize userName question queryResult) w2 in
                     case synthesize e userName question queryResult of
                       Inl err \<Rightarrow> (Inl err, w3)
                     | Inr answer \<Rightarrow>
                         (Inr (JObj [(''question'', JStr question),
                                     (''user'', JObj [(''id'', userId), (''name'', userName)]),
                                     (''answer'', JStr answer),
                                     (''queryExecuted'', queryDefJson mongoQuery),
                                     (''dataRetrieved'', queryResult)]),
                          w3)))))"

definition jsString :: "env \<Rightarrow> json \<Rightarrow> string" where
  "jsString e v = (case v of JStr s \<Rightarrow> s | _ \<Rightarrow> stringOf e v)"

definition processQuery ::
  "env \<Rightarrow> world \<Rightarrow> string \<Rightarrow> json \<Rightarrow> json \<Rightarrow> (error + json) \<times> world" where
  "processQuery e w question userId userName =
     (let key = cacheKey (jsString e userId) question in
      case getCachedResponse e w key of
        (cached, w1) \<Rightarrow>
          if truthy cached then (Inr (withFromCache True cached), w1)
          else
            (case processNaturalLanguageQuery e w1 question userId userName of
               (Inl err, w2) \<Rightarrow> (Inl err, w2)
             | (Inr result, w2) \<Rightarrow>
                 (Inr (withFromCache False result), cacheResponse e w2 key result)))"

subsection \<open>The route POST /query\<close>

text \<open>
  The handler's reply: status 400 with its message, status 200 with the result, or status
  500 for an error thrown by \<open>processQuery\<close>. The \<open>processingTime\<close> added to the last two
  is wall-clock time and is left out. \<open>body\<close> is the parsed request body, an object.
\<close>

datatype response =
    BadRequest string
  | Success json
  | ProcessingFailed error

definition postQuery :: "env \<Rightarrow> world \<Rightarrow> (string \<times> json) list \<Rightarrow> response \<times> world" where
  "postQuery e w body =
     (let question = map_of body ''question'';
          userId = map_of body ''userId'';
          userName = map_of body ''userName''
      in
      if falsy question then (BadRequest ''Question is required'', w)
      else if falsy userId \<or> falsy userName then
        (BadRequest ''userId and userName are required. Please select a user.'', w)
      else
        (case question of
           Some (JStr q) \<Rightarrow>
             if length (trim q) = 0 then (BadRequest ''Question cannot be empty'', w)
             else if length q > 500 then
               (BadRequest ''Question is too long (max 500 characters)'', w)
             else
               (case processQuery e w (trim q)
                       (case userId of Some u \<Rightarrow> u | None \<Rightarrow> JNull)
                       (case userName of Some n \<Rightarrow> n | None \<Rightarrow> JNull) of
                  (Inl err, w') \<Rightarrow> (ProcessingFailed err, w')
                | (Inr result, w') \<Rightarrow> (Success result, w'))
         | _ \<Rightarrow> (BadRequest ''Question must be a string'', w)))"

section \<open>Vocabulary of the properties, and a fixture store\<close>

definition tenantCollections :: "string list" where
  "tenantCollections = [''bank_transactions'', ''mutual_fund_holdings'', ''equity_holdings'']"

text \<open>The query carries no tenant filter of its own: \<open>!query || !query.user_id\<close>.\<close>

definition noUserId :: "queryDef \<Rightarrow> bool" where
  "noUserId q = (case query q of None \<Rightarrow> True | Some f \<Rightarrow> falsy (map_of f ''user_id''))"

text \<open>The filter that \<open>{ ...query, user_id: userId }\<close> builds.\<close>

definition withUserId :: "queryDef \<Rightarrow> json \<Rightarrow> (string \<times> json) list" where
  "withUserId q userId =
     AList.update ''user_id'' userId (case query q of None \<Rightarrow> [] | Some f \<Rightarrow> f)"

text \<open>The \<open>user_id\<close> inside the \<open>$match\<close> of a stage, when the stage has one.\<close>

definition stageUserId :: "json \<Rightarrow> json option" where
  "stageUserId s =
     (case s of
        JObj kvs \<Rightarrow>
          (case map_of kvs ''$match'' of
             Some (JObj mkvs) \<Rightarrow> map_of mkvs ''user_id''
           | _ \<Rightarrow> None)
      | _ \<Rightarrow> None)"

text \<open>A document belongs to tenant \<open>t\<close>; no document of a list holds an array of owners.\<close>

definition owned :: "string \<Rightarrow> json \<Rightarrow> bool" where
  "owned t d = (fieldOf d ''user_id'' = Some (JStr t))"

definition singleOwner :: "json \<Rightarrow> bool" where
  "singleOwner d = (case fieldOf d ''user_id'' of Some (JArr xs) \<Rightarrow> False | _ \<Rightarrow> True)"

text \<open>
  Two tenants, \<open>A\<close> with two food transactions and \<open>B\<close> with one, in a store that
  knows equality filters only, ignores projections and rejects every other stage.
\<close>

definition rowA1 :: json where
  "rowA1 = JObj [(''_id'', JStr ''t1''), (''user_id'', JStr ''A''),
                 (''amount'', JNum 2500), (''category'', JStr ''food'')]"

definition rowA2 :: json where
  "rowA2 = JObj [(''_id'', JStr ''t2''), (''user_id'', JStr ''A''),
                 (''amount'', JNum 1800), (''category'', JStr ''food'')]"

definition rowB1 :: json where
  "rowB1 = JObj [(''_id'', JStr ''t3''), (''user_id'', JStr ''B''),
                 (''amount'', JNum 900), (''category'', JStr ''food'')]"

definition fixture :: mongo where
  "fixture =
     \<lparr>docs = (\<lambda>c. if c = ''bank_transactions'' then [rowA1, rowA2, rowB1]
                  else if c = ''users''
                  then [JObj [(''_id'', JStr ''A''), (''name'', JStr ''Rahul Sharma'')],
                        JObj [(''_id'', JStr ''B''), (''name'', JStr ''Priya Patel'')]]
                  else []),
      cond = (\<lambda>k v d. False),
      proj = (\<lambda>spec d. d),
      stage = (\<lambda>s ds. Inl ''unsupported stage''),
      outage = None\<rparr>"

definition mkQuery ::
  "string \<Rightarrow> string \<Rightarrow> (string \<times> json) list option \<Rightarrow> json list option \<Rightarrow> queryDef" where
  "mkQuery c op f pl =
     \<lparr>collection = Some (JStr c), operation = Some (JStr op), query = f,
      projection = None, pipeline = pl\<rparr>"

text \<open>
  A tenant id that normalisation leaves alone: no white space and no upper-case letter, as
  the UUIDs of the seed. A question with no white space in front, as the route passes it.
\<close>

definition plainId :: "string \<Rightarrow> bool" where
  "plainId t = list_all (\<lambda>c. \<not> isSpace c \<and> toLowerChar c = c) t"

definition noLeadingSpace :: "string \<Rightarrow> bool" where
  "noLeadingSpace q = (case q of [] \<Rightarrow> True | c # cs \<Rightarrow> \<not> isSpace c)"

text \<open>Caching is switched off, or the cache store cannot be reached.\<close>

definition cacheUnavailable :: "env \<Rightarrow> world \<Rightarrow> bool" where
  "cacheUnavailable e w =
     (\<not> cacheEnabled e \<or> (case redisClient w of Ready kvs \<Rightarrow> False | _ \<Rightarrow> True))"

text \<open>
  A request body that fails validation: the question is missing (absent, \<open>null\<close> or
  otherwise falsy), not a string, empty after trim or longer than 500 characters, or the
  tenant id or name is missing.
\<close>

definition invalidInput :: "(string \<times> json) list \<Rightarrow> bool" where
  "invalidInput body =
     (falsy (map_of body ''question'')
      \<or> (case map_of body ''question'' of
            Some (JStr q) \<Rightarrow> trim q = [] \<or> length q > 500
          | _ \<Rightarrow> True)
      \<or> falsy (map_of body ''userId'')
      \<or> falsy (map_of body ''userName''))"

text \<open>
  Collaborators for the fixture: a translation that always asks for the food transactions
  and leaves the tenant filter out, a fixed answer, and a cache that is switched on.
\<close>

definition fixtureEnv :: env where
  "fixtureEnv =
     \<lparr>cacheEnabled = True, cacheTtl = 3600,
      parseJSON = (\<lambda>s. None), stringify = (\<lambda>v. ''{}''), stringOf = (\<lambda>v. ''[object Object]''),
      mongoDb = Some fixture,
      translate = (\<lambda>question userId.
        Inr (mkQuery ''bank_transactions'' ''find'' (Some [(''category'', JStr ''food'')]) None)),
      synthesize = (\<lambda>userName question queryResult. Inr ''You spent 4300 on food.'')\<rparr>"

definition request :: "json \<Rightarrow> (string \<times> json) list" where
  "request question =
     [(''question'', question), (''userId'', JStr ''A''), (''userName'', JStr ''Rahul Sharma'')]"

section \<open>Properties of the guard and the executor\<close>

subsection \<open>Helper facts\<close>

lemma hasUserMatch_Nil: "hasUserMatch [] = Inr False"
  by (simp add: hasUserMatch_def)

lemma hasUserMatch_Cons:
  "s \<noteq> JNull \<Longrightarrow> hasUserMatch (s # rest) = Inr (\<not> falsy (stageUserId s))"
  by (cases s)
    (auto simp: hasUserMatch_def stageUserId_def falsy_def split: option.splits json.splits)

lemma hasUserMatch_null: "hasUserMatch (JNull # rest) = Inl TypeError"
  by (simp add: hasUserMatch_def)

lemma stageUserId_not_null: "\<not> falsy (stageUserId s) \<Longrightarrow> s \<noteq> JNull"
  by (auto simp: stageUserId_def falsy_def)

lemma map_of_withUserId:
  "map_of (withUserId q t)
     = (map_of (case query q of None \<Rightarrow> [] | Some f \<Rightarrow> f))(''user_id'' \<mapsto> t)"
  by (simp add: withUserId_def update_conv')

lemma injectUserId_find_eq:
  assumes "collection q \<noteq> Some (JStr ''users'')"
    and "operation q = Some (JStr ''find'') \<or> operation q = Some (JStr ''findOne'')"
  shows "injectUserId q t
           = Inr (if noUserId q then q\<lparr>query := Some (withUserId q t)\<rparr> else q)"
  using assms
  by (auto simp: injectUserId_def noUserId_def withUserId_def split: option.splits)

lemma injectUserId_aggregate_eq:
  assumes "collection q \<noteq> Some (JStr ''users'')"
    and "operation q = Some (JStr ''aggregate'')" and "pipeline q = Some pl"
  shows "injectUserId q t =
     (case hasUserMatch pl of
        Inl e \<Rightarrow> Inl e
      | Inr has \<Rightarrow> Inr (if has then q else q\<lparr>pipeline := Some (userMatch t # pl)\<rparr>))"
  using assms by (auto simp: injectUserId_def split: sum.splits)

lemma tenant_not_users: "c \<in> set tenantCollections \<Longrightarrow> c \<noteq> ''users''"
  by (auto simp: tenantCollections_def)

lemma tenant_allowed:
  "c \<in> set tenantCollections \<Longrightarrow> arrayIncludes allowedCollections (Some (JStr c))"
  by (auto simp: tenantCollections_def allowedCollections_def arrayIncludes_def)

text \<open>A document that passes a filter holding \<open>user_id: t\<close> belongs to \<open>t\<close>.\<close>

lemma sat_withUserId_owned:
  assumes "sat m (AList.update ''user_id'' (JStr t) f) d" and "singleOwner d"
  shows "owned t d"
proof -
  have "''user_id'' \<in> set (map fst (AList.update ''user_id'' (JStr t) f))"
    by (simp add: dom_update)
  moreover have "map_of (AList.update ''user_id'' (JStr t) f) ''user_id'' = Some (JStr t)"
    by (simp add: update_conv')
  ultimately have "holds m d ''user_id'' (JStr t)"
    using assms(1) unfolding sat_def list_all_iff by fastforce
  then show ?thesis
    using assms(2)
    by (auto simp: holds_def plainField_def owned_def singleOwner_def
          split: option.splits json.splits)
qed

text \<open>The stage the guard prepends keeps exactly the tenant's documents.\<close>

lemma run_stage_userMatch:
  assumes "list_all singleOwner ds"
  shows "run_stage m (userMatch (JStr t)) ds = Inr (filter (owned t) ds)"
proof -
  have "sat m [(''user_id'', JStr t)] d = owned t d" if "singleOwner d" for d
    using that
    by (auto simp: sat_def holds_def plainField_def owned_def singleOwner_def
          split: option.splits json.splits)
  then have "filter (sat m [(''user_id'', JStr t)]) ds = filter (owned t) ds"
    using assms by (intro filter_cong) (auto simp: list_all_iff)
  then show ?thesis by (simp add: run_stage_def userMatch_def)
qed

lemmas fixture_eval =
  enforceThenExecute_def injectUserId_def mkQuery_def falsy_def executeQuery_def
  arrayIncludes_def allowedCollections_def tenantCollections_def collectionName_def
  col_find_def col_findOne_def col_aggregate_def fixture_def raised_def sat_def holds_def
  plainField_def fieldOf_def rowA1_def rowA2_def rowB1_def project_def noUserId_def
  withUserId_def owned_def singleOwner_def hasUserMatch_def userMatch_def run_stage_def
  stageUserId_def

subsection \<open>The users collection\<close>

text \<open>
  C8: the guard is the identity on the users collection: for every structured query whose
  collection is \<open>users\<close> and every tenant id, it returns the query it was given.
\<close>

theorem injectUserId_users_identity:
  "collection queryDef = Some (JStr ''users'') \<Longrightarrow> injectUserId queryDef userId = Inr queryDef"
  by (simp add: injectUserId_def)

theorem injectUserId_users_identity_witness:
  "collection (mkQuery ''users'' ''find'' (Some [(''name'', JStr ''Priya Patel'')]) None)
     = Some (JStr ''users'')
   \<and> injectUserId (mkQuery ''users'' ''find'' (Some [(''name'', JStr ''Priya Patel'')]) None)
        (JStr ''A'')
     = Inr (mkQuery ''users'' ''find'' (Some [(''name'', JStr ''Priya Patel'')]) None)"
  using injectUserId_users_identity
    [of "mkQuery ''users'' ''find'' (Some [(''name'', JStr ''Priya Patel'')]) None" "JStr ''A''"]
  by (simp add: mkQuery_def)

subsection \<open>find and findOne\<close>

text \<open>
  What the guard does for \<open>find\<close> and \<open>findOne\<close> on a collection other than users: it
  sets the filter's \<open>user_id\<close> to the context tenant id when the filter is absent or its
  \<open>user_id\<close> is absent or falsy, and then keeps every other filter field; a filter that
  holds a truthy \<open>user_id\<close> comes back as it was given.
\<close>

theorem injectUserId_find_adds_missing_user_id:
  assumes "collection q \<noteq> Some (JStr ''users'')"
    and "operation q = Some (JStr ''find'') \<or> operation q = Some (JStr ''findOne'')"
  shows "(noUserId q \<longrightarrow>
            injectUserId q t = Inr (q\<lparr>query := Some (withUserId q t)\<rparr>)
            \<and> map_of (withUserId q t) ''user_id'' = Some t
            \<and> (\<forall>k. k \<noteq> ''user_id'' \<longrightarrow>
                  map_of (withUserId q t) k
                    = map_of (case query q of None \<Rightarrow> [] | Some f \<Rightarrow> f) k))
       \<and> (\<not> noUserId q \<longrightarrow> injectUserId q t = Inr q)"
  using assms by (simp add: injectUserId_find_eq map_of_withUserId)

theorem injectUserId_find_adds_missing_user_id_witness:
  "injectUserId (mkQuery ''bank_transactions'' ''find'' (Some [(''category'', JStr ''food'')]) None)
      (JStr ''A'')
     = Inr (mkQuery ''bank_transactions'' ''find''
              (Some [(''category'', JStr ''food''), (''user_id'', JStr ''A'')]) None)
   \<and> injectUserId (mkQuery ''bank_transactions'' ''findOne'' (Some [(''user_id'', JStr ''A'')]) None)
      (JStr ''A'')
     = Inr (mkQuery ''bank_transactions'' ''findOne'' (Some [(''user_id'', JStr ''A'')]) None)"
  using
    injectUserId_find_adds_missing_user_id
      [of "mkQuery ''bank_transactions'' ''find'' (Some [(''category'', JStr ''food'')]) None"
          "JStr ''A''"]
    injectUserId_find_adds_missing_user_id
      [of "mkQuery ''bank_transactions'' ''findOne'' (Some [(''user_id'', JStr ''A'')]) None"
          "JStr ''A''"]
  by (simp add: mkQuery_def noUserId_def withUserId_def falsy_def)

text \<open>
  C2: for a \<open>find\<close> or \<open>findOne\<close> whose filter already holds a tenant-field value, the
  guard is to overwrite that value with the context tenant id, so that the output filter
  names the context tenant even when the input named a foreign one. The code does not do
  this, against its own header (\<open>All queries are filtered by the provided user_id\<close>) and
  the comment at the call (\<open>Safety: Ensure user_id is in the query\<close>): run for tenant
  \<open>A\<close>, a filter that names tenant \<open>B\<close> comes back unchanged.
\<close>

theorem injectUserId_find_keeps_foreign_user_id:
  "injectUserId (mkQuery ''bank_transactions'' ''find'' (Some [(''user_id'', JStr ''B'')]) None)
      (JStr ''A'')
     = Inr (mkQuery ''bank_transactions'' ''find'' (Some [(''user_id'', JStr ''B'')]) None)
   \<and> query (mkQuery ''bank_transactions'' ''find'' (Some [(''user_id'', JStr ''B'')]) None)
     = Some [(''user_id'', JStr ''B'')]
   \<and> JStr ''B'' \<noteq> JStr ''A''"
  by (simp add: injectUserId_def mkQuery_def falsy_def)

subsection \<open>aggregate\<close>

text \<open>
  What the guard does for \<open>aggregate\<close> on a collection other than users with a
  pipeline present: it prepends the stage \<open>{ $match: { user_id: tenantId } }\<close> when the
  pipeline is empty or its first stage has no truthy \<open>$match.user_id\<close>; a first stage
  that has one makes it return the query as it was given; a first stage that is \<open>null\<close>
  makes the property read throw.
\<close>

theorem injectUserId_aggregate_prepends_missing_match:
  assumes "collection q \<noteq> Some (JStr ''users'')"
    and "operation q = Some (JStr ''aggregate'')" and "pipeline q = Some pl"
  shows "(pl = [] \<longrightarrow> injectUserId q t = Inr (q\<lparr>pipeline := Some [userMatch t]\<rparr>))
       \<and> (\<forall>s rest. pl = s # rest \<and> s \<noteq> JNull \<and> falsy (stageUserId s) \<longrightarrow>
             injectUserId q t = Inr (q\<lparr>pipeline := Some (userMatch t # pl)\<rparr>))
       \<and> (\<forall>s rest. pl = s # rest \<and> \<not> falsy (stageUserId s) \<longrightarrow> injectUserId q t = Inr q)
       \<and> (\<forall>rest. pl = JNull # rest \<longrightarrow> injectUserId q t = Inl TypeError)"
  using assms stageUserId_not_null
  by (auto simp: injectUserId_aggregate_eq hasUserMatch_Nil hasUserMatch_Cons hasUserMatch_null)

theorem injectUserId_aggregate_prepends_missing_match_witness:
  "injectUserId
      (mkQuery ''bank_transactions'' ''aggregate'' None
         (Some [JObj [(''$group'', JObj [(''_id'', JStr ''$category'')])]]))
      (JStr ''A'')
     = Inr (mkQuery ''bank_transactions'' ''aggregate'' None
              (Some [JObj [(''$match'', JObj [(''user_id'', JStr ''A'')])],
                     JObj [(''$group'', JObj [(''_id'', JStr ''$category'')])]]))
   \<and> injectUserId (mkQuery ''bank_transactions'' ''aggregate'' None (Some [])) (JStr ''A'')
     = Inr (mkQuery ''bank_transactions'' ''aggregate'' None
              (Some [JObj [(''$match'', JObj [(''user_id'', JStr ''A'')])]]))
   \<and> injectUserId
      (mkQuery ''bank_transactions'' ''aggregate'' None
         (Some [JObj [(''$match'', JObj [(''user_id'', JStr ''A'')])]]))
      (JStr ''A'')
     = Inr (mkQuery ''bank_transactions'' ''aggregate'' None
              (Some [JObj [(''$match'', JObj [(''user_id'', JStr ''A'')])]]))
   \<and> injectUserId (mkQuery ''bank_transactions'' ''aggregate'' None (Some [JNull])) (JStr ''A'')
     = Inl TypeError"
  using
    injectUserId_aggregate_prepends_missing_match
      [of "mkQuery ''bank_transactions'' ''aggregate'' None
             (Some [JObj [(''$group'', JObj [(''_id'', JStr ''$category'')])]])"
          "[JObj [(''$group'', JObj [(''_id'', JStr ''$category'')])]]" "JStr ''A''"]
    injectUserId_aggregate_prepends_missing_match
      [of "mkQuery ''bank_transactions'' ''aggregate'' None (Some [])" "[]" "JStr ''A''"]
    injectUserId_aggregate_prepends_missing_match
      [of "mkQuery ''bank_transactions'' ''aggregate'' None
             (Some [JObj [(''$match'', JObj [(''user_id'', JStr ''A'')])]])"
          "[JObj [(''$match'', JObj [(''user_id'', JStr ''A'')])]]" "JStr ''A''"]
    injectUserId_aggregate_prepends_missing_match
      [of "mkQuery ''bank_transactions'' ''aggregate'' None (Some [JNull])" "[JNull]"
          "JStr ''A''"]
  by (simp add: mkQuery_def stageUserId_def falsy_def userMatch_def)

text \<open>
  C3: for an \<open>aggregate\<close> whose first stage is not an equality match on the tenant
  field with the context tenant id, the guard is to prepend such a stage, so that the first
  stage of the output always binds the tenant field to the context tenant id and never to
  a value carried over from the input. The code does not do this, against its own
  header (\<open>All queries are filtered by the provided user_id\<close>): run for tenant \<open>A\<close>, a
  pipeline whose first stage matches on tenant \<open>B\<close> comes back unchanged, and nothing is
  prepended.
\<close>

theorem injectUserId_aggregate_keeps_foreign_match:
  "injectUserId
      (mkQuery ''bank_transactions'' ''aggregate'' None
         (Some [JObj [(''$match'', JObj [(''user_id'', JStr ''B'')])]]))
      (JStr ''A'')
     = Inr (mkQuery ''bank_transactions'' ''aggregate'' None
              (Some [JObj [(''$match'', JObj [(''user_id'', JStr ''B'')])]]))
   \<and> pipeline (mkQuery ''bank_transactions'' ''aggregate'' None
         (Some [JObj [(''$match'', JObj [(''user_id'', JStr ''B'')])]]))
     \<noteq> Some [userMatch (JStr ''A'')]"
  by (simp add: fixture_eval)

text \<open>
  C10: for \<open>aggregate\<close> on a tenant-owned collection with the pipeline absent, the guard
  returns the query unchanged, and the executor then aggregates with an empty pipeline: it
  returns every document of the collection, whoever owns it.
\<close>

theorem aggregate_without_pipeline_is_unscoped:
  assumes "c \<in> set tenantCollections" and "collection q = Some (JStr c)"
    and "operation q = Some (JStr ''aggregate'')" and "pipeline q = None"
    and "outage m = None"
  shows "injectUserId q t = Inr q
       \<and> executeQuery (Some m) q = Inr (JArr (docs m c))
       \<and> enforceThenExecute (Some m) q t = Inr (JArr (docs m c))"
  using assms tenant_not_users[OF assms(1)] tenant_allowed[OF assms(1)]
  by (simp add: enforceThenExecute_def injectUserId_def executeQuery_def collectionName_def
        col_aggregate_def raised_def)

theorem aggregate_without_pipeline_is_unscoped_witness:
  "enforceThenExecute (Some fixture) (mkQuery ''bank_transactions'' ''aggregate'' None None)
     (JStr ''A'')
     = Inr (JArr [rowA1, rowA2, rowB1])
   \<and> owned ''B'' rowB1"
  using aggregate_without_pipeline_is_unscoped
    [of "''bank_transactions''" "mkQuery ''bank_transactions'' ''aggregate'' None None"
        fixture "JStr ''A''"]
  by (simp add: mkQuery_def tenantCollections_def fixture_def owned_def fieldOf_def rowB1_def)

subsection \<open>The executor's two errors\<close>

text \<open>
  C7, as the code has it: \<open>executeQuery\<close> fails with InvalidCollection exactly when the
  collection is not one of the four allow-listed names, whatever produced the query; it
  fails with UnsupportedOperation exactly when the collection is allow-listed, the database
  handle is there, and the operation is none of \<open>find\<close>, \<open>findOne\<close>, \<open>aggregate\<close>. The
  collection is checked first.
\<close>

theorem executeQuery_error_classes:
  "((\<exists>v. executeQuery db q = Inl (InvalidCollection v))
      = (\<not> arrayIncludes allowedCollections (collection q)))
   \<and> ((\<exists>v. executeQuery db q = Inl (UnsupportedOperation v))
      = (arrayIncludes allowedCollections (collection q) \<and> db \<noteq> None
         \<and> operation q
             \<notin> {Some (JStr ''find''), Some (JStr ''findOne''), Some (JStr ''aggregate'')}))"
  by (auto simp: executeQuery_def raised_def Let_def split: option.splits sum.splits)

text \<open>
  C7 as stated fails: with a collection outside the allow-list and an operation outside
  the three, the error is InvalidCollection and not UnsupportedOperation.
\<close>

theorem executeQuery_checks_collection_first:
  "executeQuery (Some fixture) (mkQuery ''accounts'' ''deleteMany'' None None)
     = Inl (InvalidCollection (Some (JStr ''accounts'')))
   \<and> \<not> ((\<exists>v. executeQuery (Some fixture) (mkQuery ''accounts'' ''deleteMany'' None None)
              = Inl (UnsupportedOperation v))
        = (operation (mkQuery ''accounts'' ''deleteMany'' None None)
             \<notin> {Some (JStr ''find''), Some (JStr ''findOne''), Some (JStr ''aggregate'')}))"
  by (simp add: executeQuery_def mkQuery_def arrayIncludes_def allowedCollections_def)

subsection \<open>Tenant isolation\<close>

text \<open>
  Where the guard does add the tenant filter. Take a tenant-owned collection of a
  reachable store whose documents each have a single owner, and a tenant id \<open>t\<close> that is a
  string. For a query that carries no tenant filter of its own, running the guard and then
  the executor reads only documents with \<open>user_id = t\<close>: \<open>find\<close> returns the projections
  of documents that all belong to \<open>t\<close>; \<open>findOne\<close> returns \<open>null\<close> or the projection of
  one of them; and for \<open>aggregate\<close> with a pipeline in whose first stage the guard finds no
  tenant match, the given pipeline runs on the documents of \<open>t\<close> alone.
\<close>

theorem tenant_isolation_of_unfiltered_queries:
  assumes "c \<in> set tenantCollections" and "collection q = Some (JStr c)"
    and "outage m = None" and "list_all singleOwner (docs m c)"
  shows "(operation q = Some (JStr ''find'') \<and> noUserId q \<longrightarrow>
            enforceThenExecute (Some m) q (JStr t)
              = Inr (JArr (map (project m (projection q))
                            (filter (sat m (withUserId q (JStr t))) (docs m c))))
            \<and> list_all (owned t) (filter (sat m (withUserId q (JStr t))) (docs m c)))
       \<and> (operation q = Some (JStr ''findOne'') \<and> noUserId q \<longrightarrow>
            (case filter (sat m (withUserId q (JStr t))) (docs m c) of
               [] \<Rightarrow> enforceThenExecute (Some m) q (JStr t) = Inr JNull
             | d # ds \<Rightarrow>
                 enforceThenExecute (Some m) q (JStr t) = Inr (project m (projection q) d)
                 \<and> owned t d))
       \<and> (\<forall>pl. operation q = Some (JStr ''aggregate'') \<and> pipeline q = Some pl
                 \<and> hasUserMatch pl = Inr False \<longrightarrow>
            enforceThenExecute (Some m) q (JStr t)
              = raised (map_sum id JArr (run_pipeline m pl (filter (owned t) (docs m c)))))"
proof -
  note nu = tenant_not_users[OF assms(1)] and al = tenant_allowed[OF assms(1)]
  have cu: "collection q \<noteq> Some (JStr ''users'')"
    using assms(2) nu by simp
  have own: "list_all (owned t) (filter (sat m (withUserId q (JStr t))) (docs m c))"
    using assms(4) by (auto simp: list_all_iff withUserId_def intro: sat_withUserId_owned)
  have f: "enforceThenExecute (Some m) q (JStr t)
              = Inr (JArr (map (project m (projection q))
                            (filter (sat m (withUserId q (JStr t))) (docs m c))))"
    if "operation q = Some (JStr ''find'')" and "noUserId q"
    using that assms(2,3) al
    by (simp add: enforceThenExecute_def injectUserId_find_eq[OF cu] executeQuery_def
          collectionName_def col_find_def raised_def)
  have f1: "enforceThenExecute (Some m) q (JStr t)
              = (case filter (sat m (withUserId q (JStr t))) (docs m c) of
                   [] \<Rightarrow> Inr JNull
                 | d # ds \<Rightarrow> Inr (project m (projection q) d))"
    if "operation q = Some (JStr ''findOne'')" and "noUserId q"
    using that assms(2,3) al
    by (simp add: enforceThenExecute_def injectUserId_find_eq[OF cu] executeQuery_def
          collectionName_def col_findOne_def raised_def split: list.splits)
  have a: "enforceThenExecute (Some m) q (JStr t)
              = raised (map_sum id JArr (run_pipeline m pl (filter (owned t) (docs m c))))"
    if "operation q = Some (JStr ''aggregate'')" and "pipeline q = Some pl"
      and "hasUserMatch pl = Inr False" for pl
    using that assms(2,3) al run_stage_userMatch[OF assms(4), of m t]
    by (simp add: enforceThenExecute_def injectUserId_aggregate_eq[OF cu] executeQuery_def
          collectionName_def col_aggregate_def)
  show ?thesis
    using f f1 a own by (auto split: list.splits)
qed

theorem tenant_isolation_of_unfiltered_queries_witness:
  "enforceThenExecute (Some fixture)
      (mkQuery ''bank_transactions'' ''find'' (Some [(''category'', JStr ''food'')]) None)
      (JStr ''A'')
     = Inr (JArr [rowA1, rowA2])
   \<and> enforceThenExecute (Some fixture)
      (mkQuery ''bank_transactions'' ''findOne'' None None) (JStr ''B'')
     = Inr rowB1
   \<and> enforceThenExecute (Some fixture)
      (mkQuery ''bank_transactions'' ''aggregate'' None (Some [])) (JStr ''A'')
     = Inr (JArr [rowA1, rowA2])"
  using
    tenant_isolation_of_unfiltered_queries
      [of "''bank_transactions''"
          "mkQuery ''bank_transactions'' ''find'' (Some [(''category'', JStr ''food'')]) None"
          fixture "''A''"]
    tenant_isolation_of_unfiltered_queries
      [of "''bank_transactions''" "mkQuery ''bank_transactions'' ''findOne'' None None"
          fixture "''B''"]
    tenant_isolation_of_unfiltered_queries
      [of "''bank_transactions''" "mkQuery ''bank_transactions'' ''aggregate'' None (Some [])"
          fixture "''A''"]
  by (simp add: mkQuery_def tenantCollections_def fixture_def rowA1_def rowA2_def rowB1_def
        singleOwner_def fieldOf_def noUserId_def withUserId_def falsy_def sat_def holds_def
        plainField_def project_def owned_def hasUserMatch_def raised_def)

text \<open>
  C1: for every structured query and every tenant id, executing the guarded query is to
  return only rows whose \<open>user_id\<close> is the requesting tenant's. The code does not ensure
  this, against its own header (\<open>All queries are filtered by the provided user_id\<close>) and
  the comment at the call (\<open>Safety: Ensure user_id is in the query\<close>): a \<open>find\<close> whose
  filter names tenant \<open>B\<close>, run for tenant \<open>A\<close>, passes the guard unchanged and returns
  the transaction of \<open>B\<close>.
\<close>

theorem tenant_isolation_broken_by_forged_filter:
  "enforceThenExecute (Some fixture)
      (mkQuery ''bank_transactions'' ''find'' (Some [(''user_id'', JStr ''B'')]) None)
      (JStr ''A'')
     = Inr (JArr [rowB1])
   \<and> fieldOf rowB1 ''user_id'' = Some (JStr ''B'')
   \<and> JStr ''B'' \<noteq> JStr ''A''"
  by (simp add: fixture_eval)

section \<open>Properties of the cache key\<close>

subsection \<open>Normalisation of the text that is hashed\<close>

lemma isSpace_toLowerChar: "isSpace (toLowerChar c) = isSpace c"
  by (auto simp: toLowerChar_def isSpace_def Let_def)

lemma dropWhile_nonspace_mid:
  "\<not> P c \<Longrightarrow> dropWhile P (xs @ c # ys) = dropWhile P xs @ c # ys"
  by (induction xs) auto

lemma trimStart_mid: "\<not> isSpace c \<Longrightarrow> trimStart (a @ c # b) = trimStart a @ c # b"
  by (simp add: trimStart_def dropWhile_nonspace_mid)

lemma trimEnd_mid: "\<not> isSpace c \<Longrightarrow> trimEnd (a @ c # b) = a @ c # trimEnd b"
  by (simp add: trimEnd_def dropWhile_nonspace_mid)

lemma collapseSpaces_mid:
  "\<not> isSpace c \<Longrightarrow> collapseSpaces (a @ c # b) = collapseSpaces a @ c # collapseSpaces b"
  by (induction a rule: collapseSpaces.induct) (auto simp: dropWhile_nonspace_mid)

lemma colon_plain: "\<not> isSpace CHR '':''" "toLowerChar CHR '':'' = CHR '':''"
  by (simp_all add: isSpace_def toLowerChar_def)

text \<open>
  The colon of the template splits the normalised text: the tenant id loses its leading
  white space, the question its trailing white space, and each is lower-cased and
  collapsed on its own.
\<close>

lemma normalized_cacheKey:
  "normalized (cacheKey t q)
     = collapseSpaces (trimStart (toLowerCase t)) @ '':''
         @ collapseSpaces (trimEnd (toLowerCase q))"
  by (simp add: normalized_def cacheKey_def trim_def toLowerCase_def colon_plain
        trimStart_mid trimEnd_mid collapseSpaces_mid)

lemma collapseSpaces_plain: "list_all (\<lambda>c. \<not> isSpace c) t \<Longrightarrow> collapseSpaces t = t"
  by (induction t) auto

lemma plainId_normal:
  assumes "plainId t"
  shows "collapseSpaces (trimStart (toLowerCase t)) = t"
proof -
  have l: "toLowerCase t = t"
    using assms by (auto simp: plainId_def toLowerCase_def list_all_iff intro: map_idI)
  have ns: "list_all (\<lambda>c. \<not> isSpace c) t"
    using assms by (auto simp: plainId_def list_all_iff)
  have "trimStart t = t"
    using ns by (cases t) (auto simp: trimStart_def)
  then show ?thesis
    using l ns by (simp add: collapseSpaces_plain)
qed

lemma normalized_noLeadingSpace:
  assumes "noLeadingSpace q"
  shows "normalized q = collapseSpaces (trimEnd (toLowerCase q))"
proof -
  have "trimStart (toLowerCase q) = toLowerCase q"
    using assms
    by (cases q) (auto simp: noLeadingSpace_def trimStart_def toLowerCase_def isSpace_toLowerChar)
  then show ?thesis by (simp add: normalized_def trim_def)
qed

subsection \<open>Digests\<close>

lemma replicate_numeral: "replicate (numeral k) x = x # replicate (pred_numeral k) x"
  by (simp add: numeral_eq_Suc)

lemmas md5_eval =
  md5_def md5_pad_def md5_blocks_def rotl32_def add32_def not32_def md5_F_def md5_g_def
  md5_words_def le32_def hexLE_def hexByte_def md5_K_def md5_s_def utf8_def upt_rec
  replicate_numeral

text \<open>Two test vectors of RFC 1321.\<close>

lemma md5_empty: "md5 [] = ''d41d8cd98f00b204e9800998ecf8427e''"
  by (simp add: md5_eval)

lemma md5_abc: "md5 ''abc'' = ''900150983cd24fb0d6963f7d28e17f72''"
  by (simp add: md5_eval)

lemma md5_u1_spaced:
  "md5 ''u1: how much did i spend on food?'' = ''f54002fe7141bd58b523d2bdeb251865''"
  by (simp add: md5_eval)

lemma md5_u1_bare:
  "md5 ''u1:how much did i spend on food'' = ''8b6c2ad3163069e666f0205c4194e723''"
  by (simp add: md5_eval)

lemma md5_u1_question:
  "md5 ''u1:how much did i spend on food?'' = ''4479c21beba1a55a086b4fd52283bffe''"
  by (simp add: md5_eval)

lemmas normalized_eval =
  keyOf_def generateCacheKey_def cacheKey_def normalized_def trim_def trimStart_def
  trimEnd_def toLowerCase_def toLowerChar_def isSpace_def char_of_def bit_Suc_0_iff

lemma keyOf_u1_question:
  "keyOf ''u1'' ''how much did i spend on food?'' = ''query:4479c21beba1a55a086b4fd52283bffe''"
  by (simp add: normalized_eval md5_u1_question)

subsection \<open>Keys of different tenants\<close>

text \<open>
  Tenant ids without white space and upper-case letters: for two different ones and every
  question, the texts that are hashed differ, and the keys are \<open>query:\<close> followed by the
  MD5 digests of these two texts.
\<close>

theorem keys_of_plain_tenants_hash_different_texts:
  assumes "plainId t1" and "plainId t2" and "t1 \<noteq> t2"
  shows "normalized (cacheKey t1 q) \<noteq> normalized (cacheKey t2 q)
       \<and> (keyOf t1 q = keyOf t2 q)
           = (md5 (normalized (cacheKey t1 q)) = md5 (normalized (cacheKey t2 q)))"
  using assms by (simp add: normalized_cacheKey plainId_normal keyOf_def generateCacheKey_def)

text \<open>
  C4: for two different tenant ids and the same question the cache keys are to differ, so
  that no tenant is served another tenant's cached result. The code does not ensure this,
  although it sets out to (\<open>Create user-specific cache key\<close>): \<open>generateCacheKey\<close>,
  written to normalise a question, is handed the whole text \<open>tenantId:question\<close> and
  lower-cases the tenant id with it, so the tenant ids \<open>USER-1\<close> and \<open>user-1\<close> get one
  key for the same question.
\<close>

theorem keys_of_tenants_differing_in_case_coincide:
  "''USER-1'' \<noteq> ''user-1''
   \<and> keyOf ''USER-1'' ''how much did i spend on food?''
     = keyOf ''user-1'' ''how much did i spend on food?''"
  by (simp add: keyOf_def generateCacheKey_def normalized_cacheKey toLowerCase_def
        toLowerChar_def char_of_def bit_Suc_0_iff)

subsection \<open>Keys of one tenant\<close>

text \<open>
  C5, as the code has it, for tenant ids and questions of characters U+0000 to U+00FF: the
  key of a tenant and a question does not depend on the letter case of the question nor
  on how long the runs of white space inside it and at its end are. Two questions with no
  white space in front (the route trims the question before the lookup) that normalise
  (lower case, trim, collapse white space) to the same text get the same key, for every
  tenant; so for every tenant \<open>t\<close> the key of \<open>How Much did I Spend  on Food?\<close> is the
  key of \<open>how much did i spend on food?\<close>.
\<close>

theorem key_depends_on_normalized_question:
  "(\<forall>t q1 q2. noLeadingSpace q1 \<and> noLeadingSpace q2 \<and> normalized q1 = normalized q2
        \<longrightarrow> keyOf t q1 = keyOf t q2)
   \<and> (\<forall>t. keyOf t ''How Much did I Spend  on Food?''
            = keyOf t ''how much did i spend on food?'')"
proof -
  have g: "keyOf t q1 = keyOf t q2"
    if "noLeadingSpace q1" "noLeadingSpace q2" "normalized q1 = normalized q2" for t q1 q2
    using that
    by (simp add: keyOf_def generateCacheKey_def normalized_cacheKey normalized_noLeadingSpace)
  have "normalized ''How Much did I Spend  on Food?''
          = normalized ''how much did i spend on food?''"
    by (simp add: normalized_eval)
  then have "keyOf t ''How Much did I Spend  on Food?''
               = keyOf t ''how much did i spend on food?''" for t
    by (intro g) (simp_all add: noLeadingSpace_def isSpace_def)
  then show ?thesis
    using g by blast
qed

theorem key_depends_on_normalized_question_witness:
  "noLeadingSpace ''How Much did I Spend  on Food?''
   \<and> noLeadingSpace ''how much did i spend on food?''
   \<and> normalized ''How Much did I Spend  on Food?'' = ''how much did i spend on food?''
   \<and> normalized ''how much did i spend on food?'' = ''how much did i spend on food?''
   \<and> keyOf ''u1'' ''How Much did I Spend  on Food?''
     = ''query:4479c21beba1a55a086b4fd52283bffe''"
  using key_depends_on_normalized_question keyOf_u1_question
  by (simp add: noLeadingSpace_def normalized_def trim_def trimStart_def trimEnd_def
        toLowerCase_def toLowerChar_def isSpace_def char_of_def bit_Suc_0_iff)

text \<open>
  C5 as stated fails, for tenant \<open>u1\<close>: the question with two leading spaces and a
  question mark and the question without either get different keys. Neither difference
  alone is harmless: the key of the question with the question mark and no leading space
  is a third one.
\<close>

theorem keys_of_spec_example_differ:
  "keyOf ''u1'' ''  How Much did I Spend  on Food?''
     = ''query:f54002fe7141bd58b523d2bdeb251865''
   \<and> keyOf ''u1'' ''how much did i spend on food''
     = ''query:8b6c2ad3163069e666f0205c4194e723''
   \<and> keyOf ''u1'' ''how much did i spend on food?''
     = ''query:4479c21beba1a55a086b4fd52283bffe''
   \<and> keyOf ''u1'' ''  How Much did I Spend  on Food?''
     \<noteq> keyOf ''u1'' ''how much did i spend on food''"
  by (simp add: normalized_eval md5_u1_spaced md5_u1_bare md5_u1_question)

section \<open>Properties of the orchestrator and the route\<close>

lemma processNaturalLanguageQuery_result_any_world:
  "fst (processNaturalLanguageQuery e w question userId userName)
     = fst (processNaturalLanguageQuery e w' question userId userName)"
  by (simp add: processNaturalLanguageQuery_def Let_def split: sum.splits)

lemma fromCache_withFromCache: "fieldOf (withFromCache b v) ''fromCache'' = Some (JBool b)"
  by (simp add: withFromCache_def fieldOf_def update_conv')

lemma getCachedResponse_unavailable:
  "cacheUnavailable e w \<Longrightarrow>
     fst (getCachedResponse e w k) = JNull
     \<and> redisClient (snd (getCachedResponse e w k)) = redisClient w"
  by (auto simp: cacheUnavailable_def getCachedResponse_def isRedisConnected_def logCall_def
        Let_def split: redis.splits)

lemma cacheResponse_unavailable:
  "cacheUnavailable e w \<Longrightarrow> redisClient (cacheResponse e w k r) = redisClient w"
  by (auto simp: cacheUnavailable_def cacheResponse_def isRedisConnected_def logCall_def
        Let_def split: redis.splits)

lemma processQuery_unavailable:
  assumes "cacheUnavailable e w"
  shows "fst (processQuery e w q u n)
           = (case fst (processNaturalLanguageQuery e w q u n) of
                Inl err \<Rightarrow> Inl err
              | Inr result \<Rightarrow> Inr (withFromCache False result))"
proof -
  obtain c w1 where g: "getCachedResponse e w (cacheKey (jsString e u) q) = (c, w1)"
    by (cases "getCachedResponse e w (cacheKey (jsString e u) q)")
  have c: "c = JNull"
    using getCachedResponse_unavailable[OF assms, of "cacheKey (jsString e u) q"] g by simp
  have "fst (processNaturalLanguageQuery e w1 q u n)
          = fst (processNaturalLanguageQuery e w q u n)"
    by (rule processNaturalLanguageQuery_result_any_world)
  then show ?thesis
    using g c
    by (cases "processNaturalLanguageQuery e w1 q u n")
       (auto simp: processQuery_def Let_def split: sum.splits)
qed

text \<open>
  C6: whenever caching is switched off or the cache store cannot be reached (the client is
  closed, or it rejects its commands), the cache lookup returns \<open>null\<close>, storing leaves
  the cache as it is and raises nothing, and \<open>processQuery\<close> ends as the uncached chain
  does: where the chain produces a result, \<open>processQuery\<close> returns that result with
  \<open>fromCache\<close> false; the only errors it can end in are the chain's own.
\<close>

theorem cache_fails_open:
  assumes "cacheUnavailable e w"
  shows "fst (getCachedResponse e w k) = JNull
       \<and> redisClient (cacheResponse e w k r) = redisClient w
       \<and> fst (processQuery e w q u n)
           = (case fst (processNaturalLanguageQuery e w q u n) of
                Inl err \<Rightarrow> Inl err
              | Inr result \<Rightarrow> Inr (withFromCache False result))
       \<and> (\<forall>res. fst (processQuery e w q u n) = Inr res
             \<longrightarrow> fieldOf res ''fromCache'' = Some (JBool False))"
  using getCachedResponse_unavailable[OF assms] cacheResponse_unavailable[OF assms]
    processQuery_unavailable[OF assms]
  by (auto simp: fromCache_withFromCache split: sum.splits)

theorem cache_fails_open_witness:
  "cacheUnavailable fixtureEnv \<lparr>redisClient = Stalled, calls = []\<rparr>
   \<and> fst (processQuery fixtureEnv \<lparr>redisClient = Stalled, calls = []\<rparr>
          ''How much did I spend on food?'' (JStr ''A'') (JStr ''Rahul Sharma''))
     = Inr (JObj [(''question'', JStr ''How much did I spend on food?''),
                  (''user'', JObj [(''id'', JStr ''A''), (''name'', JStr ''Rahul Sharma'')]),
                  (''answer'', JStr ''You spent 4300 on food.''),
                  (''queryExecuted'',
                     JObj [(''collection'', JStr ''bank_transactions''),
                           (''operation'', JStr ''find''),
                           (''query'', JObj [(''category'', JStr ''food''),
                                             (''user_id'', JStr ''A'')])]),
                  (''dataRetrieved'', JArr [rowA1, rowA2]),
                  (''fromCache'', JBool False)])"
  using cache_fails_open
          [of fixtureEnv "\<lparr>redisClient = Stalled, calls = []\<rparr>" _ _
              "''How much did I spend on food?''" "JStr ''A''" "JStr ''Rahul Sharma''"]
  by (simp add: cacheUnavailable_def fixtureEnv_def processNaturalLanguageQuery_def Let_def
        logCall_def withFromCache_def spread_def queryDefJson_def fixture_eval)

text \<open>
  C9: a request whose input fails validation is answered with status 400 (Bad Request) and
  leaves the world as it was: no cache lookup, no translation, no document-store call and
  no synthesis is recorded for it.
\<close>

theorem invalid_input_rejected_before_any_call:
  assumes "invalidInput body"
  shows "\<exists>msg. postQuery e w body = (BadRequest msg, w)"
  using assms
  by (auto simp: invalidInput_def postQuery_def Let_def falsy_def
        split: option.splits json.splits)

theorem invalid_input_rejected_before_any_call_witness:
  "postQuery fixtureEnv \<lparr>redisClient = Ready [], calls = []\<rparr>
      [(''userId'', JStr ''A''), (''userName'', JStr ''Rahul Sharma'')]
     = (BadRequest ''Question is required'', \<lparr>redisClient = Ready [], calls = []\<rparr>)
   \<and> postQuery fixtureEnv \<lparr>redisClient = Ready [], calls = []\<rparr> (request (JNum 42))
     = (BadRequest ''Question must be a string'', \<lparr>redisClient = Ready [], calls = []\<rparr>)
   \<and> postQuery fixtureEnv \<lparr>redisClient = Ready [], calls = []\<rparr> (request (JStr ''   ''))
     = (BadRequest ''Question cannot be empty'', \<lparr>redisClient = Ready [], calls = []\<rparr>)
   \<and> (\<exists>msg. postQuery fixtureEnv \<lparr>redisClient = Ready [], calls = []\<rparr>
               (request (JStr (replicate 501 CHR ''a'')))
             = (BadRequest msg, \<lparr>redisClient = Ready [], calls = []\<rparr>))
   \<and> postQuery fixtureEnv \<lparr>redisClient = Ready [], calls = []\<rparr>
        [(''question'', JStr ''How much did I spend on food?''),
         (''userName'', JStr ''Rahul Sharma'')]
     = (BadRequest ''userId and userName are required. Please select a user.'',
        \<lparr>redisClient = Ready [], calls = []\<rparr>)"
  using
    invalid_input_rejected_before_any_call
      [of "[(''userId'', JStr ''A''), (''userName'', JStr ''Rahul Sharma'')]"
          fixtureEnv "\<lparr>redisClient = Ready [], calls = []\<rparr>"]
    invalid_input_rejected_before_any_call
      [of "request (JNum 42)" fixtureEnv "\<lparr>redisClient = Ready [], calls = []\<rparr>"]
    invalid_input_rejected_before_any_call
      [of "request (JStr ''   '')" fixtureEnv "\<lparr>redisClient = Ready [], calls = []\<rparr>"]
    invalid_input_rejected_before_any_call
      [of "request (JStr (replicate 501 CHR ''a''))" fixtureEnv
          "\<lparr>redisClient = Ready [], calls = []\<rparr>"]
    invalid_input_rejected_before_any_call
      [of "[(''question'', JStr ''How much did I spend on food?''),
            (''userName'', JStr ''Rahul Sharma'')]"
          fixtureEnv "\<lparr>redisClient = Ready [], calls = []\<rparr>"]
  by (simp add: invalidInput_def request_def falsy_def postQuery_def trim_def trimStart_def
        trimEnd_def isSpace_def)

subsection \<open>What the record of calls shows for a request that passes validation\<close>

text \<open>
  The record of calls is not empty by construction: every request that passes validation
  adds at least one call to it.
\<close>

lemma calls_getCachedResponse:
  "calls (snd (getCachedResponse e w k)) = calls w
   \<or> (\<exists>c. calls (snd (getCachedResponse e w k)) = calls w @ [c])"
  by (auto simp: getCachedResponse_def logCall_def Let_def split: redis.splits option.splits)

lemma truthy_getCachedResponse:
  "truthy (fst (getCachedResponse e w k)) \<Longrightarrow>
     \<exists>c. calls (snd (getCachedResponse e w k)) = calls w @ [c]"
  by (auto simp: getCachedResponse_def logCall_def Let_def split: redis.splits option.splits if_splits)

lemma calls_cacheResponse: "length (calls w) \<le> length (calls (cacheResponse e w k r))"
  by (auto simp: cacheResponse_def logCall_def Let_def split: redis.splits)

lemma calls_processNaturalLanguageQuery:
  "length (calls w) < length (calls (snd (processNaturalLanguageQuery e w q u n)))"
  by (auto simp: processNaturalLanguageQuery_def logCall_def Let_def split: sum.splits)

lemma calls_processQuery:
  "length (calls w) < length (calls (snd (processQuery e w q u n)))"
proof -
  obtain c w1 where g: "getCachedResponse e w (cacheKey (jsString e u) q) = (c, w1)"
    by (cases "getCachedResponse e w (cacheKey (jsString e u) q)")
  show ?thesis
  proof (cases "truthy c")
    case True
    then show ?thesis
      using g truthy_getCachedResponse[of e w "cacheKey (jsString e u) q"]
      by (auto simp: processQuery_def)
  next
    case False
    have 1: "length (calls w) \<le> length (calls w1)"
      using g calls_getCachedResponse[of e w "cacheKey (jsString e u) q"] by auto
    obtain r w2 where p: "processNaturalLanguageQuery e w1 q u n = (r, w2)"
      by (cases "processNaturalLanguageQuery e w1 q u n")
    have 2: "length (calls w1) < length (calls w2)"
      using p calls_processNaturalLanguageQuery[of w1 e q u n] by simp
    show ?thesis
      using False g p 1 2 calls_cacheResponse[of w2 e]
      by (cases r) (auto simp: processQuery_def intro: less_le_trans le_less_trans)
  qed
qed

lemma valid_input_reaches_outside:
  assumes "\<not> invalidInput body"
  shows "length (calls w) < length (calls (snd (postQuery e w body)))"
proof -
  obtain q where q: "map_of body ''question'' = Some (JStr q)" "trim q \<noteq> []" "\<not> length q > 500"
    using assms by (auto simp: invalidInput_def split: option.splits json.splits)
  have nf: "\<not> falsy (map_of body ''question'')" "\<not> falsy (map_of body ''userId'')"
    "\<not> falsy (map_of body ''userName'')"
    using assms by (auto simp: invalidInput_def)
  obtain r w' where p: "processQuery e w (trim q)
      (case map_of body ''userId'' of Some u \<Rightarrow> u | None \<Rightarrow> JNull)
      (case map_of body ''userName'' of Some n \<Rightarrow> n | None \<Rightarrow> JNull) = (r, w')"
    by (cases "processQuery e w (trim q)
      (case map_of body ''userId'' of Some u \<Rightarrow> u | None \<Rightarrow> JNull)
      (case map_of body ''userName'' of Some n \<Rightarrow> n | None \<Rightarrow> JNull)")
  have "length (calls w) < length (calls w')"
    using calls_processQuery[of w e "trim q"] p by (metis snd_conv)
  then show ?thesis
    using q nf p by (cases r) (auto simp: postQuery_def Let_def)
qed

end
